theory Spec2Isabelle
  imports Complex_Main "HOL-Library.Sublist"
begin

section \<open>JavaScript values\<close>

text \<open>
  The components keep their state in plain JavaScript objects and receive payloads that
  the socket library has parsed from JSON. A value is \<open>undefined\<close>, \<open>null\<close>, a boolean,
  a number, \<open>NaN\<close>, a string, a \<open>Date\<close> (its milliseconds), a built-in function or object
  of the language (named), or a plain object: a partial map from property names to values.
  Numbers are their mathematical values (the rounding of doubles is not modelled; the only
  arithmetic in the source is \<open>+ 1\<close> on a small counter). Strings are sequences of code
  units below 256. Arrays are not modelled. The order of an object's keys is not modelled:
  an object is what its property reads return.
\<close>

datatype js_error = TypeError

datatype jsval =
    JUndefined
  | JNull
  | JBool bool
  | JNum real
  | JNaN
  | JStr string
  | JDate int
  | JBuiltin string
  | JObj "string \<Rightarrow> jsval option"

type_synonym obj = "string \<Rightarrow> jsval option"

text \<open>
  What the model does not define of the language is a parameter, so that every theorem
  holds whatever the runtime does there: \<open>ToString\<close> on a value that is not a string
  (it can throw), \<open>JSON.stringify\<close> (\<open>None\<close> is \<open>undefined\<close>), and the clock, of which
  \<open>clock n\<close> is the n-th reading (\<open>Date.now()\<close> or \<open>new Date()\<close>).
\<close>

record runtime =
  ToString :: "jsval \<Rightarrow> js_error + string"
  stringify :: "jsval \<Rightarrow> string option"
  clock :: "nat \<Rightarrow> int"

text \<open>The properties that every plain object inherits from \<open>Object.prototype\<close>.\<close>

definition object_prototype :: obj where
  "object_prototype k =
     (if k \<in> set [''constructor'', ''__proto__'', ''hasOwnProperty'', ''isPrototypeOf'',
                   ''propertyIsEnumerable'', ''toLocaleString'', ''toString'', ''valueOf'',
                   ''__defineGetter__'', ''__defineSetter__'', ''__lookupGetter__'',
                   ''__lookupSetter__'']
      then Some (JBuiltin k) else None)"

text \<open>\<open>o[k]\<close> on a plain object: the own property, else the inherited one, else \<open>undefined\<close>.\<close>

definition obj_get :: "obj \<Rightarrow> string \<Rightarrow> jsval" where
  "obj_get m k =
     (case m k of
        Some v \<Rightarrow> v
      | None \<Rightarrow> (case object_prototype k of Some b \<Rightarrow> b | None \<Rightarrow> JUndefined))"

text \<open>
  \<open>v.k\<close> for a property name \<open>k\<close> written in the source. Reading a property of
  \<open>undefined\<close> or \<open>null\<close> throws. On a value that is not a plain object the result is
  \<open>undefined\<close>: the names the source reads there (\<open>sku_id\<close>, \<open>warehouse_id\<close>,
  \<open>current_stock\<close>, \<open>from_agent\<close>, \<open>to_agent\<close>, \<open>message_type\<close>, \<open>content\<close>,
  \<open>currentStock\<close>, \<open>messagesProcessed\<close>) are defined by no built-in prototype.
\<close>

fun get_prop :: "jsval \<Rightarrow> string \<Rightarrow> js_error + jsval" where
  "get_prop JUndefined k = Inl TypeError"
| "get_prop JNull k = Inl TypeError"
| "get_prop (JObj m) k = Inr (obj_get m k)"
| "get_prop v k = Inr JUndefined"

fun show_nat :: "nat \<Rightarrow> string" where
  "show_nat n =
     (if n < 10 then [''0123456789'' ! n]
      else show_nat (n div 10) @ [''0123456789'' ! (n mod 10)])"

declare show_nat.simps [simp del]

text \<open>
  The own enumerable properties that \<open>{...v}\<close> copies: those of a plain object, the
  code units of a string under their indices, and none for any other value.
\<close>

fun spread :: "jsval \<Rightarrow> obj" where
  "spread (JObj m) = m"
| "spread (JStr s) = map_of (zip (map show_nat [0..<length s]) (map (\<lambda>c. JStr [c]) s))"
| "spread v = Map.empty"

fun truthy :: "jsval \<Rightarrow> bool" where
  "truthy JUndefined = False"
| "truthy JNull = False"
| "truthy (JBool b) = b"
| "truthy (JNum x) = (x \<noteq> 0)"
| "truthy JNaN = False"
| "truthy (JStr s) = (s \<noteq> [])"
| "truthy v = True"

text \<open>Template literals and computed property keys convert their value to a string.\<close>

fun to_string :: "runtime \<Rightarrow> jsval \<Rightarrow> js_error + string" where
  "to_string rt (JStr s) = Inr s"
| "to_string rt v = ToString rt v"

text \<open>
  \<open>v + 1\<close>. A plain object, a \<open>Date\<close> or a function is converted to a string first and
  the result is a concatenation.
\<close>

fun plus_one :: "runtime \<Rightarrow> jsval \<Rightarrow> js_error + jsval" where
  "plus_one rt JUndefined = Inr JNaN"
| "plus_one rt JNull = Inr (JNum 1)"
| "plus_one rt (JBool b) = Inr (JNum (if b then 2 else 1))"
| "plus_one rt (JNum x) = Inr (JNum (x + 1))"
| "plus_one rt JNaN = Inr JNaN"
| "plus_one rt (JStr s) = Inr (JStr (s @ ''1''))"
| "plus_one rt v =
     (case ToString rt v of Inl e \<Rightarrow> Inl e | Inr s \<Rightarrow> Inr (JStr (s @ ''1'')))"

text \<open>
  \<open>toLowerCase\<close> on code units below 256: the letters A to Z and the Latin-1 capitals
  (0xC0 to 0xDE without the multiplication sign 0xD7) move up by 32, which sets bit 5.
\<close>

definition is_upper :: "char \<Rightarrow> bool" where
  "is_upper c =
     (let n = (of_char c :: nat)
      in (65 \<le> n \<and> n \<le> 90) \<or> (192 \<le> n \<and> n \<le> 222 \<and> n \<noteq> 215))"

definition to_lower_char :: "char \<Rightarrow> char" where
  "to_lower_char c =
     (if is_upper c
      then (case c of Char b0 b1 b2 b3 b4 b5 b6 b7 \<Rightarrow> Char b0 b1 b2 b3 b4 True b6 b7)
      else c)"

definition toLowerCase :: "string \<Rightarrow> string" where
  "toLowerCase s = map to_lower_char s"

text \<open>
  \<open>messages.forEach(f)\<close>, where \<open>f\<close> updates the state or throws: the walk stops at the
  first exception, which leaves the effect.
\<close>

fun forEach :: "('a \<Rightarrow> 's \<Rightarrow> js_error + 's) \<Rightarrow> 'a list \<Rightarrow> 's \<Rightarrow> js_error + 's" where
  "forEach f [] st = Inr st"
| "forEach f (x # xs) st =
     (case f x st of Inl e \<Rightarrow> Inl e | Inr st' \<Rightarrow> forEach f xs st')"

section \<open>The alert ring (App.js)\<close>

record alert =
  alert_id :: int
  alert_type :: string
  alert_message :: string
  alert_timestamp :: int

text \<open>
  The two alerts set by the mount effect; \<open>t1\<close> and \<open>t2\<close> are the two readings of the
  clock (\<open>new Date()\<close>).
\<close>

definition initial_alerts :: "int \<Rightarrow> int \<Rightarrow> alert list" where
  "initial_alerts t1 t2 =
     [\<lparr>alert_id = 1, alert_type = ''info'',
       alert_message = ''System initialized successfully'', alert_timestamp = t1\<rparr>,
      \<lparr>alert_id = 2, alert_type = ''warning'',
       alert_message = ''Demand spike detected for SKU001'', alert_timestamp = t2\<rparr>]"

text \<open>
  \<open>addAlert(type, message)\<close>: \<open>now\<close> is the value of \<open>Date.now()\<close> and \<open>stamp\<close> that
  of \<open>new Date()\<close>, read one after the other; \<open>prev.slice(0, 9)\<close> is \<open>take 9 prev\<close>.
\<close>

definition addAlert :: "int \<Rightarrow> int \<Rightarrow> string \<Rightarrow> string \<Rightarrow> alert list \<Rightarrow> alert list" where
  "addAlert now stamp type message prev =
     (let newAlert = \<lparr>alert_id = now, alert_type = type,
                       alert_message = message, alert_timestamp = stamp\<rparr>
      in newAlert # take 9 prev)"

definition removeAlert :: "int \<Rightarrow> alert list \<Rightarrow> alert list" where
  "removeAlert i prev = filter (\<lambda>alert. alert_id alert \<noteq> i) prev"

text \<open>
  The ring changes only through these two functions once the mount effect has set the
  two initial alerts. A history of the ring is a list of operations; \<open>ring_after\<close> runs
  it, and \<open>inserted\<close> lists every alert that was ever put into the ring, newest first.
\<close>

datatype alert_op = Push int int string string | Dismiss int

fun apply_alert_op :: "alert_op \<Rightarrow> alert list \<Rightarrow> alert list" where
  "apply_alert_op (Push now stamp type message) prev = addAlert now stamp type message prev"
| "apply_alert_op (Dismiss i) prev = removeAlert i prev"

definition ring_after :: "int \<Rightarrow> int \<Rightarrow> alert_op list \<Rightarrow> alert list" where
  "ring_after t1 t2 ops = fold apply_alert_op ops (initial_alerts t1 t2)"

fun record_insertion :: "alert_op \<Rightarrow> alert list \<Rightarrow> alert list" where
  "record_insertion (Push now stamp type message) h =
     \<lparr>alert_id = now, alert_type = type,
      alert_message = message, alert_timestamp = stamp\<rparr> # h"
| "record_insertion (Dismiss i) h = h"

definition inserted :: "int \<Rightarrow> int \<Rightarrow> alert_op list \<Rightarrow> alert list" where
  "inserted t1 t2 ops = fold record_insertion ops (initial_alerts t1 t2)"

section \<open>The connection manager (SocketProvider)\<close>

record message =
  msg_type :: string
  msg_data :: jsval
  msg_timestamp :: int

text \<open>
  The socket is the transport; the model keeps of it the calls of \<open>emit\<close> made on it, in
  order. The provider's state is the three \<open>useState\<close> cells.
\<close>

record transport =
  emitted :: "(string \<times> jsval) list"

record provider =
  socket :: "transport option"
  connected :: bool
  messages :: "message list"

definition provider_initial :: provider where
  "provider_initial = \<lparr>socket = None, connected = False, messages = []\<rparr>"

text \<open>The mount effect creates the socket and stores it (\<open>setSocket(newSocket)\<close>).\<close>

definition provider_mounted :: provider where
  "provider_mounted = provider_initial\<lparr>socket := Some \<lparr>emitted = []\<rparr>\<rparr>"

text \<open>
  What the transport can signal: the connection comes up, it goes down, or the server
  pushes a named event with a payload. The provider registers a listener for
  \<open>connect\<close>, for \<open>disconnect\<close> and for four event names; an event with no listener
  is dropped by the socket library. \<open>now\<close> is the reading of \<open>new Date()\<close>.
\<close>

datatype transport_event = Connect | Disconnect | Inbound string jsval

fun on_event :: "transport_event \<Rightarrow> int \<Rightarrow> provider \<Rightarrow> provider" where
  "on_event Connect now p = p\<lparr>connected := True\<rparr>"
| "on_event Disconnect now p = p\<lparr>connected := False\<rparr>"
| "on_event (Inbound name d) now p =
     (if name = ''inventory_update'' then
        p\<lparr>messages := messages p @
            [\<lparr>msg_type = ''inventory_update'', msg_data = d, msg_timestamp = now\<rparr>]\<rparr>
      else if name = ''agent_message'' then
        p\<lparr>messages := messages p @
            [\<lparr>msg_type = ''agent_message'', msg_data = d, msg_timestamp = now\<rparr>]\<rparr>
      else if name = ''optimization_result'' then
        p\<lparr>messages := messages p @
            [\<lparr>msg_type = ''optimization_result'', msg_data = d, msg_timestamp = now\<rparr>]\<rparr>
      else if name = ''system_metrics'' then
        p\<lparr>messages := messages p @
            [\<lparr>msg_type = ''system_metrics'', msg_data = d, msg_timestamp = now\<rparr>]\<rparr>
      else p)"

text \<open>A delivery is a list of signals, each with the clock reading at its arrival.\<close>

fun ingest :: "(transport_event \<times> int) list \<Rightarrow> provider \<Rightarrow> provider" where
  "ingest [] p = p"
| "ingest ((e, now) # es) p = ingest es (on_event e now p)"

text \<open>
  A pushed event as the transport delivers it: its name, its payload and the clock
  reading at its arrival. \<open>has_listener\<close> holds of the four names for which the provider
  calls \<open>newSocket.on\<close>, and \<open>logged\<close> is the entry such an event leaves in the log.
\<close>

type_synonym delivery = "string \<times> jsval \<times> int"

definition as_event :: "delivery \<Rightarrow> transport_event \<times> int" where
  "as_event ev = (Inbound (fst ev) (fst (snd ev)), snd (snd ev))"

definition has_listener :: "string \<Rightarrow> bool" where
  "has_listener name \<longleftrightarrow>
     name = ''inventory_update'' \<or> name = ''agent_message'' \<or>
     name = ''optimization_result'' \<or> name = ''system_metrics''"

definition logged :: "delivery \<Rightarrow> message" where
  "logged ev = \<lparr>msg_type = fst ev, msg_data = fst (snd ev), msg_timestamp = snd (snd ev)\<rparr>"

text \<open>
  Every view walks the log with \<open>messages.forEach\<close> and tests \<open>message.type\<close>: the
  kinds it observes are the types of the log, in the log's order.
\<close>

definition observed_kinds :: "provider \<Rightarrow> string list" where
  "observed_kinds p = map msg_type (messages p)"

definition emit :: "string \<Rightarrow> jsval \<Rightarrow> transport \<Rightarrow> transport" where
  "emit event d s = s\<lparr>emitted := emitted s @ [(event, d)]\<rparr>"

text \<open>
  \<open>sendMessage(event, data)\<close>: \<open>if (socket && connected) socket.emit(event, data)\<close>.
  It has no other statement: it throws nothing and stores nothing.
\<close>

definition sendMessage :: "string \<Rightarrow> jsval \<Rightarrow> provider \<Rightarrow> provider" where
  "sendMessage event d p =
     (case socket p of
        None \<Rightarrow> p
      | Some s \<Rightarrow> if connected p then p\<lparr>socket := Some (emit event d s)\<rparr> else p)"

section \<open>The subscriber views\<close>

text \<open>
  A view's effect walks the whole log. An update \<open>setX(prev => ...)\<close> is applied to the
  state cell at once: the updates queued by one effect are applied in their order, each
  to the result of the one before. A call of the \<open>addAlert\<close> property is recorded as the
  pair of its arguments, in the order of the calls.
\<close>

subsection \<open>InventoryView.js\<close>

record inventory_view =
  inventory :: obj
  inventory_alerts :: "(string \<times> string) list"


text \<open>\<open>v?.currentStock\<close>: \<open>undefined\<close> when \<open>v\<close> is \<open>undefined\<close> or \<open>null\<close>.\<close>

fun optional_currentStock :: "jsval \<Rightarrow> jsval" where
  "optional_currentStock JUndefined = JUndefined"
| "optional_currentStock JNull = JUndefined"
| "optional_currentStock (JObj m) = obj_get m ''currentStock''"
| "optional_currentStock v = JUndefined"

text \<open>
  The updater given to \<open>setInventory\<close>; \<open>sku_id\<close> and \<open>warehouse_id\<close> are the two
  computed keys, already strings.
\<close>

definition inventory_updater :: "string \<Rightarrow> string \<Rightarrow> jsval \<Rightarrow> obj \<Rightarrow> obj" where
  "inventory_updater sku_id warehouse_id current_stock prev =
     prev(sku_id \<mapsto>
       JObj ((spread (obj_get prev sku_id))
         (''currentStock'' \<mapsto>
            JObj ((spread (optional_currentStock (obj_get prev sku_id)))
                    (warehouse_id \<mapsto> current_stock)))))"

definition InventoryView_message ::
  "runtime \<Rightarrow> message \<Rightarrow> inventory_view \<Rightarrow> js_error + inventory_view" where
  "InventoryView_message rt m st =
     (if msg_type m = ''inventory_update'' then
        (case get_prop (msg_data m) ''sku_id'' of
           Inl e \<Rightarrow> Inl e
         | Inr sku \<Rightarrow>
        (case get_prop (msg_data m) ''warehouse_id'' of
           Inl e \<Rightarrow> Inl e
         | Inr wh \<Rightarrow>
        (case get_prop (msg_data m) ''current_stock'' of
           Inl e \<Rightarrow> Inl e
         | Inr current_stock \<Rightarrow>
        (case to_string rt sku of
           Inl e \<Rightarrow> Inl e
         | Inr sku_id \<Rightarrow>
        (case to_string rt wh of
           Inl e \<Rightarrow> Inl e
         | Inr warehouse_id \<Rightarrow>
             Inr (st\<lparr>inventory :=
                        inventory_updater sku_id warehouse_id current_stock (inventory st),
                      inventory_alerts := inventory_alerts st @
                        [(''info'', ''Inventory updated for '' @ sku_id @ '' in '' @ warehouse_id)]\<rparr>))))))
      else Inr st)"


subsection \<open>Dashboard.js\<close>

record dashboard_view =
  metrics :: obj
  dashboard_alerts :: "(string \<times> string) list"

definition metrics_initial :: obj where
  "metrics_initial =
     [''totalInventoryValue'' \<mapsto> JNum 125000,
      ''totalCarbonFootprint'' \<mapsto> JNum 2450,
      ''serviceLevel'' \<mapsto> JNum 0.94,
      ''stockoutIncidents'' \<mapsto> JNum 3,
      ''overstockIncidents'' \<mapsto> JNum 7,
      ''costEfficiency'' \<mapsto> JNum 0.87,
      ''agentCommunicationVolume'' \<mapsto> JNum 156,
      ''optimizationCyclesCompleted'' \<mapsto> JNum 42]"

definition Dashboard_message ::
  "runtime \<Rightarrow> message \<Rightarrow> dashboard_view \<Rightarrow> js_error + dashboard_view" where
  "Dashboard_message rt m st =
     (if msg_type m = ''system_metrics'' then
        Inr (st\<lparr>metrics := metrics st ++ spread (msg_data m)\<rparr>)
      else if msg_type m = ''optimization_result'' then
        (case get_prop (msg_data m) ''sku_id'' of
           Inl e \<Rightarrow> Inl e
         | Inr sku \<Rightarrow>
        (case to_string rt sku of
           Inl e \<Rightarrow> Inl e
         | Inr sku_id \<Rightarrow>
             Inr (st\<lparr>dashboard_alerts := dashboard_alerts st @
                        [(''info'', ''Optimization completed for '' @ sku_id)]\<rparr>)))
      else Inr st)"


subsection \<open>SustainabilityMetrics.js\<close>




subsection \<open>Runs of an effect\<close>



subsection \<open>AgentStatus.js\<close>

record recent_message =
  rm_id :: int
  rm_from :: jsval
  rm_to :: jsval
  rm_type :: jsval
  rm_content :: string
  rm_timestamp :: int

text \<open>\<open>reads\<close> counts the readings of the clock made so far.\<close>

record agent_view =
  agents :: obj
  recentMessages :: "recent_message list"
  reads :: nat

text \<open>The initial agents; \<open>t1\<close> to \<open>t4\<close> are the four readings of \<open>new Date()\<close>.\<close>

definition agents_initial :: "int \<Rightarrow> int \<Rightarrow> int \<Rightarrow> int \<Rightarrow> obj" where
  "agents_initial t1 t2 t3 t4 =
     [''demand'' \<mapsto> JObj [''name'' \<mapsto> JStr ''Demand Agent'', ''status'' \<mapsto> JStr ''active'',
        ''lastActivity'' \<mapsto> JDate t1, ''messagesProcessed'' \<mapsto> JNum 45,
        ''forecastsGenerated'' \<mapsto> JNum 12, ''confidence'' \<mapsto> JNum 0.87,
        ''color'' \<mapsto> JStr ''#28a745''],
      ''supply'' \<mapsto> JObj [''name'' \<mapsto> JStr ''Supply Agent'', ''status'' \<mapsto> JStr ''active'',
        ''lastActivity'' \<mapsto> JDate t2, ''ordersProcessed'' \<mapsto> JNum 23,
        ''suppliersMonitored'' \<mapsto> JNum 4, ''reliability'' \<mapsto> JNum 0.92,
        ''color'' \<mapsto> JStr ''#007bff''],
      ''logistics'' \<mapsto> JObj [''name'' \<mapsto> JStr ''Logistics Agent'', ''status'' \<mapsto> JStr ''active'',
        ''lastActivity'' \<mapsto> JDate t3, ''shipmentsOptimized'' \<mapsto> JNum 18,
        ''routesCalculated'' \<mapsto> JNum 156, ''efficiency'' \<mapsto> JNum 0.89,
        ''color'' \<mapsto> JStr ''#ffc107''],
      ''negotiation'' \<mapsto> JObj [''name'' \<mapsto> JStr ''Negotiation Agent'', ''status'' \<mapsto> JStr ''active'',
        ''lastActivity'' \<mapsto> JDate t4, ''negotiationsCompleted'' \<mapsto> JNum 7,
        ''costSavings'' \<mapsto> JNum 12500, ''successRate'' \<mapsto> JNum 0.85,
        ''color'' \<mapsto> JStr ''#dc3545'']]"

text \<open>The initial recent messages; \<open>n1\<close> to \<open>n4\<close> are the four readings of \<open>Date.now()\<close>.\<close>

definition recentMessages_initial :: "int \<Rightarrow> int \<Rightarrow> int \<Rightarrow> int \<Rightarrow> recent_message list" where
  "recentMessages_initial n1 n2 n3 n4 =
     [\<lparr>rm_id = 1, rm_from = JStr ''demand'', rm_to = JStr ''supply'',
       rm_type = JStr ''demand_forecast'',
       rm_content = ''Forecast spike for SKU001 - 150% increase expected'',
       rm_timestamp = n1 - 2 * 60 * 1000\<rparr>,
      \<lparr>rm_id = 2, rm_from = JStr ''supply'', rm_to = JStr ''negotiation'',
       rm_type = JStr ''supply_alert'',
       rm_content = ''Low stock alert for SKU003 - immediate reorder needed'',
       rm_timestamp = n2 - 5 * 60 * 1000\<rparr>,
      \<lparr>rm_id = 3, rm_from = JStr ''logistics'', rm_to = JStr ''supply'',
       rm_type = JStr ''logistics_request'',
       rm_content = ''Proposing inventory transfer from North to South warehouse'',
       rm_timestamp = n3 - 8 * 60 * 1000\<rparr>,
      \<lparr>rm_id = 4, rm_from = JStr ''negotiation'', rm_to = JStr ''supply'',
       rm_type = JStr ''negotiation_offer'',
       rm_content = ''Secured 15% discount from SUP002 for bulk order'',
       rm_timestamp = n4 - 12 * 60 * 1000\<rparr>]"

text \<open>
  \<open>data.from_agent?.toLowerCase()\<close>: \<open>None\<close> is \<open>undefined\<close>. A value that is neither
  a string nor \<open>undefined\<close> nor \<open>null\<close> has no method \<open>toLowerCase\<close>, and the call throws.
\<close>

fun optional_toLowerCase :: "jsval \<Rightarrow> js_error + string option" where
  "optional_toLowerCase JUndefined = Inr None"
| "optional_toLowerCase JNull = Inr None"
| "optional_toLowerCase (JStr s) = Inr (Some (toLowerCase s))"
| "optional_toLowerCase v = Inl TypeError"

text \<open>The updater given to \<open>setAgents\<close>; \<open>activity\<close> is the reading of \<open>new Date()\<close>.\<close>

definition agents_updater :: "runtime \<Rightarrow> string \<Rightarrow> int \<Rightarrow> obj \<Rightarrow> js_error + obj" where
  "agents_updater rt agentKey activity prev =
     (case get_prop (obj_get prev agentKey) ''messagesProcessed'' of
        Inl e \<Rightarrow> Inl e
      | Inr processed \<Rightarrow>
     (case plus_one rt processed of
        Inl e \<Rightarrow> Inl e
      | Inr processed' \<Rightarrow>
          Inr (prev(agentKey \<mapsto>
                 JObj ((spread (obj_get prev agentKey))
                         (''lastActivity'' \<mapsto> JDate activity,
                          ''messagesProcessed'' \<mapsto> processed'))))))"

text \<open>
  The body of the loop for one message. \<open>shown\<close> is the \<open>agents\<close> object of the render
  that created the effect, which the test \<open>agents[agentKey]\<close> reads; the updater reads
  the current state.
\<close>

definition AgentStatus_message ::
  "runtime \<Rightarrow> obj \<Rightarrow> message \<Rightarrow> agent_view \<Rightarrow> js_error + agent_view" where
  "AgentStatus_message rt shown m st =
     (if msg_type m = ''agent_message'' then
        (case get_prop (msg_data m) ''from_agent'' of
           Inl e \<Rightarrow> Inl e
         | Inr from_agent \<Rightarrow>
        (case optional_toLowerCase from_agent of
           Inl e \<Rightarrow> Inl e
         | Inr None \<Rightarrow> Inr st
         | Inr (Some agentKey) \<Rightarrow>
             if agentKey \<noteq> [] \<and> truthy (obj_get shown agentKey) then
               (case agents_updater rt agentKey (clock rt (reads st + 2)) (agents st) of
                  Inl e \<Rightarrow> Inl e
                | Inr agents' \<Rightarrow>
               (case get_prop (msg_data m) ''to_agent'' of
                  Inl e \<Rightarrow> Inl e
                | Inr to_agent \<Rightarrow>
               (case get_prop (msg_data m) ''message_type'' of
                  Inl e \<Rightarrow> Inl e
                | Inr message_type \<Rightarrow>
               (case get_prop (msg_data m) ''content'' of
                  Inl e \<Rightarrow> Inl e
                | Inr content \<Rightarrow>
               (case stringify rt content of
                  None \<Rightarrow> Inl TypeError
                | Some json \<Rightarrow>
                    Inr (st\<lparr>agents := agents',
                             recentMessages :=
                               \<lparr>rm_id = clock rt (reads st), rm_from = from_agent,
                                rm_to = to_agent, rm_type = message_type,
                                rm_content = take 100 json @ ''...'',
                                rm_timestamp = clock rt (reads st + 1)\<rparr>
                               # take 9 (recentMessages st),
                             reads := reads st + 3\<rparr>))))))
             else Inr st))
      else Inr st)"

definition AgentStatus_effect ::
  "runtime \<Rightarrow> message list \<Rightarrow> agent_view \<Rightarrow> js_error + agent_view" where
  "AgentStatus_effect rt msgs st = forEach (AgentStatus_message rt (agents st)) msgs st"

text \<open>
  The view as it is mounted: the eight readings of the clock are those of the two
  initial values. The effect lists \<open>agents\<close> among its dependencies, so it runs again
  after every update it makes; \<open>forEach (AgentStatus_effect rt) logs\<close> is a sequence of
  runs, one for each log of \<open>logs\<close>.
\<close>

definition agent_view_initial :: "runtime \<Rightarrow> agent_view" where
  "agent_view_initial rt =
     \<lparr>agents = agents_initial (clock rt 0) (clock rt 1) (clock rt 2) (clock rt 3),
      recentMessages =
        recentMessages_initial (clock rt 4) (clock rt 5) (clock rt 6) (clock rt 7),
      reads = 8\<rparr>"

text \<open>
  An agent record without a number of processed messages: the property is not there,
  or it is \<open>NaN\<close>.
\<close>

definition uncounted :: "obj \<Rightarrow> string \<Rightarrow> bool" where
  "uncounted a k \<longleftrightarrow>
     (\<exists>r. a k = Some (JObj r) \<and>
          (r ''messagesProcessed'' = None \<or> r ''messagesProcessed'' = Some JNaN))"

section \<open>Properties of the alert ring\<close>

lemma length_addAlert: "length (addAlert now stamp type message prev) = Suc (min (length prev) 9)"
  by (simp add: addAlert_def Let_def)

lemma length_removeAlert: "length (removeAlert i prev) \<le> length prev"
  by (simp add: removeAlert_def)

lemma length_apply_alert_op: "length prev \<le> 10 \<Longrightarrow> length (apply_alert_op a prev) \<le> 10"
proof (cases a)
  case (Push now stamp type message)
  then show ?thesis by (simp add: length_addAlert)
next
  case (Dismiss i)
  assume "length prev \<le> 10"
  with length_removeAlert [of i prev] Dismiss show ?thesis by simp
qed

lemma length_fold_alert_ops:
  "length prev \<le> 10 \<Longrightarrow> length (fold apply_alert_op ops prev) \<le> 10"
  by (induction ops arbitrary: prev) (simp_all add: length_apply_alert_op)

lemma subseq_apply_alert_op:
  "subseq prev h \<Longrightarrow> subseq (apply_alert_op a prev) (record_insertion a h)"
proof (cases a)
  case (Push now stamp type message)
  assume "subseq prev h"
  then have "subseq (take 9 prev) h"
    using subseq_order.order_trans [OF _ \<open>subseq prev h\<close>, of "take 9 prev"]
    by (metis append_take_drop_id list_emb_prefix subseq_order.order_refl)
  with Push show ?thesis by (simp add: addAlert_def Let_def)
next
  case (Dismiss i)
  assume "subseq prev h"
  then have "subseq (filter (\<lambda>alert. alert_id alert \<noteq> i) prev) h"
    using subseq_order.order_trans [OF subseq_filter_left] by blast
  with Dismiss show ?thesis by (simp add: removeAlert_def)
qed

lemma subseq_fold_alert_ops:
  "subseq prev h \<Longrightarrow> subseq (fold apply_alert_op ops prev) (fold record_insertion ops h)"
  by (induction ops arbitrary: prev h) (simp_all add: subseq_apply_alert_op)

lemma take_9_butlast: "length prev = 10 \<Longrightarrow> take 9 prev = butlast prev"
  by (simp add: butlast_conv_take)

text \<open>
  C4. For every ring \<open>prev\<close> that the two initial alerts can reach by pushes and
  dismissals: it holds at most 10 alerts, in the order of the insertions with the newest
  first; \<open>addAlert\<close> gives a ring of at most 10 alerts whose first is the new alert;
  below 10 alerts nothing is dropped, and at 10 alerts the ring loses its last alert,
  the oldest by insertion, whatever the severities are.
\<close>

theorem addAlert_keeps_ten_newest:
  assumes "prev = ring_after t1 t2 ops"
  shows "length prev \<le> 10 \<and>
         subseq prev (inserted t1 t2 ops) \<and>
         length (addAlert now stamp type message prev) \<le> 10 \<and>
         hd (addAlert now stamp type message prev) =
           \<lparr>alert_id = now, alert_type = type, alert_message = message,
            alert_timestamp = stamp\<rparr> \<and>
         (length prev < 10 \<longrightarrow>
            addAlert now stamp type message prev =
              \<lparr>alert_id = now, alert_type = type, alert_message = message,
               alert_timestamp = stamp\<rparr> # prev) \<and>
         (length prev = 10 \<longrightarrow>
            addAlert now stamp type message prev =
              \<lparr>alert_id = now, alert_type = type, alert_message = message,
               alert_timestamp = stamp\<rparr> # butlast prev)"
proof -
  have len: "length prev \<le> 10"
    unfolding assms ring_after_def
    by (rule length_fold_alert_ops) (simp add: initial_alerts_def)
  have sub: "subseq prev (inserted t1 t2 ops)"
    unfolding assms ring_after_def inserted_def
    by (rule subseq_fold_alert_ops) simp
  have short: "length prev < 10 \<Longrightarrow> take 9 prev = prev"
    by simp
  show ?thesis
    using len sub short take_9_butlast [of prev]
    by (auto simp add: addAlert_def Let_def)
qed

text \<open>
  Eight pushes of mixed severities fill the ring; the ninth evicts the seeded alert 2,
  a warning, and keeps the errors and the infos that came later.
\<close>

theorem addAlert_keeps_ten_newest_witness:
  "length (ring_after 0 0
      [Push 11 11 ''error'' ''a'', Push 12 12 ''info'' ''b'', Push 13 13 ''success'' ''c'',
       Push 14 14 ''warning'' ''d'', Push 15 15 ''info'' ''e'', Push 16 16 ''error'' ''f'',
       Push 17 17 ''info'' ''g'', Push 18 18 ''error'' ''h'']) = 10 \<and>
   last (ring_after 0 0
      [Push 11 11 ''error'' ''a'', Push 12 12 ''info'' ''b'', Push 13 13 ''success'' ''c'',
       Push 14 14 ''warning'' ''d'', Push 15 15 ''info'' ''e'', Push 16 16 ''error'' ''f'',
       Push 17 17 ''info'' ''g'', Push 18 18 ''error'' ''h'']) =
     \<lparr>alert_id = 2, alert_type = ''warning'',
      alert_message = ''Demand spike detected for SKU001'', alert_timestamp = 0\<rparr> \<and>
   map alert_id (addAlert 19 19 ''info'' ''i'' (ring_after 0 0
      [Push 11 11 ''error'' ''a'', Push 12 12 ''info'' ''b'', Push 13 13 ''success'' ''c'',
       Push 14 14 ''warning'' ''d'', Push 15 15 ''info'' ''e'', Push 16 16 ''error'' ''f'',
       Push 17 17 ''info'' ''g'', Push 18 18 ''error'' ''h''])) =
     [19, 18, 17, 16, 15, 14, 13, 12, 11, 1]"
  using addAlert_keeps_ten_newest [OF refl, of 0 0
      "[Push 11 11 ''error'' ''a'', Push 12 12 ''info'' ''b'', Push 13 13 ''success'' ''c'',
        Push 14 14 ''warning'' ''d'', Push 15 15 ''info'' ''e'', Push 16 16 ''error'' ''f'',
        Push 17 17 ''info'' ''g'', Push 18 18 ''error'' ''h'']" 19 19 "''info''" "''i''"]
  by (simp add: ring_after_def addAlert_def removeAlert_def initial_alerts_def)

text \<open>
  C7. The claim is that any two alerts of a ring have distinct ids. The id of a pushed
  alert is the reading of \<open>Date.now()\<close>: two pushes within one millisecond, as the
  inventory view makes when its loop meets two \<open>inventory_update\<close> events, give two
  alerts the same id.
\<close>

theorem addAlert_same_millisecond_same_id:
  "map alert_id (ring_after 0 0
      [Push 1700000000000 1700000000000 ''info'' ''Inventory updated for SKU001 in north'',
       Push 1700000000000 1700000000000 ''info'' ''Inventory updated for SKU002 in north''])
   = [1700000000000, 1700000000000, 1, 2]"
  by (simp add: ring_after_def addAlert_def initial_alerts_def)

text \<open>
  C8. Dismissing an id that no alert of the ring holds leaves the ring as it is, and
  dismissing an id a second time changes nothing more.
\<close>

theorem removeAlert_absent_id_unchanged:
  assumes "i \<notin> alert_id ` set prev"
  shows "removeAlert i prev = prev \<and>
         removeAlert i (removeAlert i prev) = removeAlert i prev"
  using assms by (auto simp add: removeAlert_def filter_id_conv)

theorem removeAlert_absent_id_unchanged_witness:
  "3 \<notin> alert_id ` set (initial_alerts 0 0) \<and>
   removeAlert 3 (initial_alerts 0 0) = initial_alerts 0 0 \<and>
   removeAlert 3 (removeAlert 3 (initial_alerts 0 0)) = removeAlert 3 (initial_alerts 0 0)"
  using removeAlert_absent_id_unchanged [of 3 "initial_alerts 0 0"]
  by (simp add: initial_alerts_def)

section \<open>Properties of the connection manager\<close>

lemma on_event_registered:
  assumes "has_listener name"
  shows "on_event (Inbound name d) now p =
           p\<lparr>messages := messages p @ [\<lparr>msg_type = name, msg_data = d, msg_timestamp = now\<rparr>]\<rparr>"
  using assms unfolding has_listener_def by (elim disjE) simp_all

lemma on_event_no_listener:
  assumes "\<not> has_listener name"
  shows "on_event (Inbound name d) now p = p"
  using assms unfolding has_listener_def by simp

text \<open>
  Events of the four names that have a listener are all appended, in the order of
  their delivery.
\<close>

lemma ingest_registered:
  assumes "\<forall>ev \<in> set evs. has_listener (fst ev)"
  shows "messages (ingest (map as_event evs) p) = messages p @ map logged evs"
  using assms
proof (induction evs arbitrary: p)
  case Nil
  then show ?case by simp
next
  case (Cons ev evs)
  from Cons.prems have reg: "has_listener (fst ev)"
    by simp
  from Cons.prems have rest: "\<forall>ev \<in> set evs. has_listener (fst ev)"
    by simp
  have "messages (ingest (map as_event (ev # evs)) p) =
          messages (ingest (map as_event evs) (on_event (Inbound (fst ev) (fst (snd ev))) (snd (snd ev)) p))"
    by (simp add: as_event_def)
  also have "\<dots> = messages (on_event (Inbound (fst ev) (fst (snd ev))) (snd (snd ev)) p) @ map logged evs"
    by (rule Cons.IH [OF rest])
  also have "\<dots> = messages p @ map logged (ev # evs)"
    by (simp only: on_event_registered [OF reg]) (simp add: logged_def)
  finally show ?case .
qed

lemma ingest_registered_length_and_order:
  assumes "\<forall>ev \<in> set evs. has_listener (fst ev)"
  shows "length (messages (ingest (map as_event evs) provider_mounted)) = length evs \<and>
         observed_kinds (ingest (map as_event evs) provider_mounted) = map fst evs"
  unfolding observed_kinds_def ingest_registered [OF assms]
  by (simp add: provider_mounted_def provider_initial_def logged_def comp_def)

text \<open>
  C1. The claim is that N delivered events of the five kinds leave a log of length N.
  The provider registers no listener for \<open>sustainability_update\<close>, the kind that the
  sustainability view looks for in the log: one such event delivered, none logged.
\<close>

theorem sustainability_update_dropped:
  "messages (ingest (map as_event
       [(''sustainability_update'', JObj [''carbonReduction'' \<mapsto> JNum 15], 1000)])
     provider_mounted) = []"
  by (simp add: as_event_def provider_mounted_def provider_initial_def)

text \<open>
  C3. While the provider is not connected, \<open>sendMessage\<close> returns the state it was given:
  no call of \<open>emit\<close> is added to the socket, nothing is stored for later. When it is
  connected and the socket exists, the command is the one call added to the socket.
\<close>

theorem sendMessage_disconnected_is_noop:
  "(\<not> connected p \<longrightarrow> sendMessage event d p = p) \<and>
   (connected p \<and> socket p = Some s \<longrightarrow>
      sendMessage event d p = p\<lparr>socket := Some (s\<lparr>emitted := emitted s @ [(event, d)]\<rparr>)\<rparr>)"
  by (simp add: sendMessage_def emit_def split: option.splits)

theorem sendMessage_disconnected_is_noop_witness:
  "\<not> connected provider_mounted \<and>
   sendMessage ''trigger_optimization'' (JObj Map.empty) provider_mounted = provider_mounted \<and>
   connected (on_event Connect 0 provider_mounted) \<and>
   socket (on_event Connect 0 provider_mounted) = Some \<lparr>emitted = []\<rparr> \<and>
   sendMessage ''trigger_optimization'' (JObj Map.empty) (on_event Connect 0 provider_mounted) =
     \<lparr>socket = Some \<lparr>emitted = [(''trigger_optimization'', JObj Map.empty)]\<rparr>,
      connected = True, messages = []\<rparr>"
  using sendMessage_disconnected_is_noop
          [of provider_mounted "''trigger_optimization''" "JObj Map.empty" "\<lparr>emitted = []\<rparr>"]
        sendMessage_disconnected_is_noop
          [of "on_event Connect 0 provider_mounted" "''trigger_optimization''" "JObj Map.empty"
              "\<lparr>emitted = []\<rparr>"]
  by (simp add: provider_mounted_def provider_initial_def)

section \<open>Properties of the subscriber views\<close>

subsection \<open>Every run walks the whole log\<close>




















subsection \<open>The inventory view and the dashboard\<close>

lemma absent_key_spreads_nothing:
  assumes "m k = None"
  shows "spread (obj_get m k) = Map.empty"
    and "spread (optional_currentStock (obj_get m k)) = Map.empty"
  using assms by (simp_all add: obj_get_def object_prototype_def)

text \<open>
  C5. An \<open>inventory_update\<close> event whose \<open>sku_id\<close> is not a key of the inventory
  creates the entry for it, a record with the one property \<open>currentStock\<close>, which
  holds the one warehouse of the event with its stock; the other entries stay, and the
  alert is requested. The event \<open>{sku_id: 'SKU999', warehouse_id: 'north',
  current_stock: 10}\<close> on the empty inventory gives \<open>{SKU999: {currentStock: {north: 10}}}\<close>.
\<close>

theorem inventory_update_creates_partial_record:
  assumes "msg_type m = ''inventory_update''"
    and "get_prop (msg_data m) ''sku_id'' = Inr sku"
    and "get_prop (msg_data m) ''warehouse_id'' = Inr wh"
    and "get_prop (msg_data m) ''current_stock'' = Inr current_stock"
    and "to_string rt sku = Inr sku_id"
    and "to_string rt wh = Inr warehouse_id"
    and "inventory st sku_id = None"
  shows "InventoryView_message rt m st =
           Inr (st\<lparr>inventory := (inventory st)
                      (sku_id \<mapsto> JObj [''currentStock'' \<mapsto> JObj [warehouse_id \<mapsto> current_stock]]),
                    inventory_alerts := inventory_alerts st @
                      [(''info'', ''Inventory updated for '' @ sku_id @ '' in '' @ warehouse_id)]\<rparr>)"
  using assms
  by (simp add: InventoryView_message_def inventory_updater_def absent_key_spreads_nothing)

theorem inventory_update_creates_partial_record_witness:
  "InventoryView_message \<lparr>ToString = \<lambda>v. Inl TypeError, stringify = \<lambda>v. None, clock = \<lambda>n. 0\<rparr>
     \<lparr>msg_type = ''inventory_update'',
      msg_data = JObj [''sku_id'' \<mapsto> JStr ''SKU999'', ''warehouse_id'' \<mapsto> JStr ''north'',
                       ''current_stock'' \<mapsto> JNum 10],
      msg_timestamp = 0\<rparr>
     \<lparr>inventory = Map.empty, inventory_alerts = []\<rparr> =
   Inr \<lparr>inventory = [''SKU999'' \<mapsto> JObj [''currentStock'' \<mapsto> JObj [''north'' \<mapsto> JNum 10]]],
        inventory_alerts = [(''info'', ''Inventory updated for SKU999 in north'')]\<rparr>"
  using inventory_update_creates_partial_record
          [of "\<lparr>msg_type = ''inventory_update'',
                msg_data = JObj [''sku_id'' \<mapsto> JStr ''SKU999'', ''warehouse_id'' \<mapsto> JStr ''north'',
                                 ''current_stock'' \<mapsto> JNum 10],
                msg_timestamp = 0\<rparr>"
              "JStr ''SKU999''" "JStr ''north''" "JNum 10"
              "\<lparr>ToString = \<lambda>v. Inl TypeError, stringify = \<lambda>v. None, clock = \<lambda>n. 0\<rparr>"
              "''SKU999''" "''north''"
              "\<lparr>inventory = Map.empty, inventory_alerts = []\<rparr>"]
  by (simp add: obj_get_def)

text \<open>
  C10. A \<open>system_metrics\<close> event replaces the metrics by \<open>{...prev, ...message.data}\<close>:
  a property that the payload does not name keeps the value it had, and a property
  that the payload names takes the payload's value.
\<close>

theorem system_metrics_shallow_merge:
  assumes "msg_type m = ''system_metrics''"
  shows "Dashboard_message rt m st = Inr (st\<lparr>metrics := metrics st ++ spread (msg_data m)\<rparr>) \<and>
         (\<forall>k. k \<notin> dom (spread (msg_data m)) \<longrightarrow>
               (metrics st ++ spread (msg_data m)) k = metrics st k) \<and>
         (\<forall>k. k \<in> dom (spread (msg_data m)) \<longrightarrow>
               (metrics st ++ spread (msg_data m)) k = spread (msg_data m) k)"
  using assms by (auto simp add: Dashboard_message_def map_add_def split: option.splits)

theorem system_metrics_shallow_merge_witness:
  "Dashboard_message \<lparr>ToString = \<lambda>v. Inl TypeError, stringify = \<lambda>v. None, clock = \<lambda>n. 0\<rparr>
     \<lparr>msg_type = ''system_metrics'',
      msg_data = JObj [''serviceLevel'' \<mapsto> JNum 0.99, ''stockoutIncidents'' \<mapsto> JNum 4],
      msg_timestamp = 0\<rparr>
     \<lparr>metrics = metrics_initial, dashboard_alerts = []\<rparr> =
   Inr \<lparr>metrics = metrics_initial(''serviceLevel'' \<mapsto> JNum 0.99, ''stockoutIncidents'' \<mapsto> JNum 4),
        dashboard_alerts = []\<rparr> \<and>
   ''totalInventoryValue'' \<notin> dom [''serviceLevel'' \<mapsto> JNum 0.99, ''stockoutIncidents'' \<mapsto> JNum 4] \<and>
   (metrics_initial ++ [''serviceLevel'' \<mapsto> JNum 0.99, ''stockoutIncidents'' \<mapsto> JNum 4])
      ''totalInventoryValue'' = Some (JNum 125000) \<and>
   (metrics_initial ++ [''serviceLevel'' \<mapsto> JNum 0.99, ''stockoutIncidents'' \<mapsto> JNum 4])
      ''serviceLevel'' = Some (JNum 0.99)"
  using system_metrics_shallow_merge
          [of "\<lparr>msg_type = ''system_metrics'',
                msg_data = JObj [''serviceLevel'' \<mapsto> JNum 0.99, ''stockoutIncidents'' \<mapsto> JNum 4],
                msg_timestamp = 0\<rparr>"
              "\<lparr>ToString = \<lambda>v. Inl TypeError, stringify = \<lambda>v. None, clock = \<lambda>n. 0\<rparr>"
              "\<lparr>metrics = metrics_initial, dashboard_alerts = []\<rparr>"]
  by (simp add: metrics_initial_def)

subsection \<open>The agent view\<close>

text \<open>
  A message whose lowercased \<open>from_agent\<close> is neither an own key of \<open>agents\<close> nor a name
  inherited from \<open>Object.prototype\<close> changes nothing; \<open>UNKNOWN\<close> is such a name.
\<close>

lemma agent_message_unmatched_key_no_change:
  assumes "msg_type m = ''agent_message''"
    and "get_prop (msg_data m) ''from_agent'' = Inr (JStr s)"
    and "shown (toLowerCase s) = None"
    and "object_prototype (toLowerCase s) = None"
  shows "AgentStatus_message rt shown m st = Inr st"
  using assms by (simp add: AgentStatus_message_def obj_get_def)

lemma lower_UNKNOWN: "toLowerCase ''UNKNOWN'' = ''unknown''"
  by (simp add: toLowerCase_def to_lower_char_def is_upper_def)

lemma agent_message_UNKNOWN_no_change:
  "AgentStatus_effect rt
     [\<lparr>msg_type = ''agent_message'', msg_data = JObj [''from_agent'' \<mapsto> JStr ''UNKNOWN''],
       msg_timestamp = t\<rparr>]
     \<lparr>agents = agents_initial t1 t2 t3 t4, recentMessages = recentMessages_initial n1 n2 n3 n4,
      reads = 8\<rparr> =
   Inr \<lparr>agents = agents_initial t1 t2 t3 t4, recentMessages = recentMessages_initial n1 n2 n3 n4,
        reads = 8\<rparr>"
  by (simp add: AgentStatus_effect_def AgentStatus_message_def lower_UNKNOWN obj_get_def
        agents_initial_def object_prototype_def)

text \<open>
  C6. The claim is that a message whose \<open>from_agent\<close> is none of the four agent keys
  changes nothing. The test \<open>agents[agentKey]\<close> also finds what the object inherits: for
  \<open>from_agent: 'constructor'\<close> it is the function \<open>Object\<close>, which is truthy, and the
  view gains a fifth agent, \<open>constructor\<close>, and a fifth recent message.
\<close>

theorem agent_message_constructor_changes_state:
  "agents_initial 0 0 0 0 ''constructor'' = None \<and>
   length (recentMessages_initial 0 0 0 0) = 4 \<and>
   map_sum id (\<lambda>st. (agents st ''constructor'', length (recentMessages st)))
     (AgentStatus_effect
        \<lparr>ToString = \<lambda>v. Inl TypeError, stringify = \<lambda>v. Some ''5'', clock = \<lambda>n. 1000\<rparr>
        [\<lparr>msg_type = ''agent_message'',
          msg_data = JObj [''from_agent'' \<mapsto> JStr ''constructor'', ''content'' \<mapsto> JNum 5],
          msg_timestamp = 0\<rparr>]
        \<lparr>agents = agents_initial 0 0 0 0, recentMessages = recentMessages_initial 0 0 0 0,
         reads = 8\<rparr>) =
   Inr (Some (JObj [''lastActivity'' \<mapsto> JDate 1000, ''messagesProcessed'' \<mapsto> JNaN]), 5)"
  by (simp add: AgentStatus_effect_def AgentStatus_message_def agents_updater_def obj_get_def
        agents_initial_def object_prototype_def recentMessages_initial_def
        toLowerCase_def to_lower_char_def is_upper_def)

lemma forEach_invariant:
  assumes "\<And>x s s'. P s \<Longrightarrow> f x s = Inr s' \<Longrightarrow> P s'"
    and "P st" and "forEach f xs st = Inr st'"
  shows "P st'"
  using assms(2,3)
proof (induction xs arbitrary: st)
  case Nil
  then show ?case by simp
next
  case (Cons x xs)
  from Cons.prems(2) obtain s1 where s1: "f x st = Inr s1" and rest: "forEach f xs s1 = Inr st'"
    by (auto split: sum.splits)
  from assms(1) [OF Cons.prems(1) s1] rest show ?case
    by (rule Cons.IH)
qed

lemma uncounted_initial:
  "uncounted (agents_initial t1 t2 t3 t4) ''supply''"
  "uncounted (agents_initial t1 t2 t3 t4) ''logistics''"
  "uncounted (agents_initial t1 t2 t3 t4) ''negotiation''"
  by (simp_all add: uncounted_def agents_initial_def)

lemma uncounted_read:
  assumes "uncounted a k"
  shows "\<exists>r. a k = Some (JObj r) \<and> plus_one rt (obj_get r ''messagesProcessed'') = Inr JNaN"
proof -
  from assms obtain r where r: "a k = Some (JObj r)"
    and mp: "r ''messagesProcessed'' = None \<or> r ''messagesProcessed'' = Some JNaN"
    by (auto simp add: uncounted_def)
  from mp have "plus_one rt (obj_get r ''messagesProcessed'') = Inr JNaN"
    by (auto simp add: obj_get_def object_prototype_def)
  with r show ?thesis by blast
qed

lemma agents_updater_uncounted:
  assumes "uncounted prev k"
  shows "\<exists>r. prev k = Some (JObj r) \<and>
           (\<forall>activity. agents_updater rt k activity prev =
              Inr (prev(k \<mapsto> JObj (r(''lastActivity'' \<mapsto> JDate activity,
                                         ''messagesProcessed'' \<mapsto> JNaN)))))"
proof -
  from uncounted_read [OF assms] obtain r where r: "prev k = Some (JObj r)"
    and nan: "plus_one rt (obj_get r ''messagesProcessed'') = Inr JNaN"
    by blast
  then show ?thesis
    by (simp add: agents_updater_def obj_get_def)
qed

lemma agents_updater_keeps_uncounted:
  assumes "uncounted prev k" and "agents_updater rt k' activity prev = Inr a'"
  shows "uncounted a' k"
proof (cases "k' = k")
  case True
  from agents_updater_uncounted [OF assms(1), of rt] assms(2) True
  show ?thesis by (auto simp add: uncounted_def)
next
  case False
  from assms(2) have "a' k = prev k"
    using False by (auto simp add: agents_updater_def split: sum.splits)
  with assms(1) show ?thesis by (simp add: uncounted_def)
qed

lemma AgentStatus_message_agents:
  assumes "AgentStatus_message rt shown m st = Inr st'"
  shows "agents st' = agents st \<or>
         (\<exists>k activity. agents_updater rt k activity (agents st) = Inr (agents st'))"
  using assms
  by (auto simp add: AgentStatus_message_def split: if_splits sum.splits option.splits)

lemma AgentStatus_message_keeps_uncounted:
  assumes "uncounted (agents st) k" and "AgentStatus_message rt shown m st = Inr st'"
  shows "uncounted (agents st') k"
  using AgentStatus_message_agents [OF assms(2)] assms(1) agents_updater_keeps_uncounted
  by metis

lemma AgentStatus_effect_keeps_uncounted:
  assumes "uncounted (agents st) k" and "AgentStatus_effect rt msgs st = Inr st'"
  shows "uncounted (agents st') k"
  using forEach_invariant [where P = "\<lambda>s. uncounted (agents s) k"
      and f = "AgentStatus_message rt (agents st)", OF _ assms(1)]
    assms(2) AgentStatus_message_keeps_uncounted
  unfolding AgentStatus_effect_def by blast

lemma AgentStatus_runs_keep_uncounted:
  assumes "uncounted (agents st) k" and "forEach (AgentStatus_effect rt) logs st = Inr st'"
  shows "uncounted (agents st') k"
  using forEach_invariant [where P = "\<lambda>s. uncounted (agents s) k"
      and f = "AgentStatus_effect rt", OF _ assms(1) assms(2)]
    AgentStatus_effect_keeps_uncounted
  by blast

text \<open>
  C9. The key is the lowercased \<open>from_agent\<close>, so every spelling of \<open>supply\<close>,
  \<open>logistics\<close> or \<open>negotiation\<close> selects that agent. In every state the view reaches
  from its initial one, the updater for such a key gives the agent's record with
  \<open>messagesProcessed\<close> set to \<open>NaN\<close>: the record starts without the property and
  \<open>undefined + 1\<close> is \<open>NaN\<close>, as is \<open>NaN + 1\<close>. When the content of the message can be
  serialised (so that building the recent message does not throw), that is the state of
  the agents after the message.
\<close>

theorem agent_message_lowercased_key_counts_NaN:
  assumes "forEach (AgentStatus_effect rt) logs (agent_view_initial rt) = Inr st"
    and "msg_type m = ''agent_message''"
    and "get_prop (msg_data m) ''from_agent'' = Inr (JStr s)"
    and "toLowerCase s = ''supply'' \<or> toLowerCase s = ''logistics'' \<or>
         toLowerCase s = ''negotiation''"
  shows "\<exists>r. agents st (toLowerCase s) = Some (JObj r) \<and>
           (\<forall>activity.
              agents_updater rt (toLowerCase s) activity (agents st) =
                Inr ((agents st)(toLowerCase s \<mapsto>
                       JObj (r(''lastActivity'' \<mapsto> JDate activity,
                               ''messagesProcessed'' \<mapsto> JNaN))))) \<and>
           (\<forall>content json.
              get_prop (msg_data m) ''content'' = Inr content \<and>
              stringify rt content = Some json \<longrightarrow>
              (\<exists>st'. AgentStatus_message rt (agents st) m st = Inr st' \<and>
                 agents st' =
                   (agents st)(toLowerCase s \<mapsto>
                      JObj (r(''lastActivity'' \<mapsto> JDate (clock rt (reads st + 2)),
                              ''messagesProcessed'' \<mapsto> JNaN)))))"
proof -
  let ?k = "toLowerCase s"
  have init: "uncounted (agents (agent_view_initial rt)) ?k"
    using assms(4) uncounted_initial by (auto simp add: agent_view_initial_def)
  have unc: "uncounted (agents st) ?k"
    by (rule AgentStatus_runs_keep_uncounted [OF init assms(1)])
  from agents_updater_uncounted [OF unc, of rt]
  obtain r where r: "agents st ?k = Some (JObj r)"
    and upd: "\<And>activity. agents_updater rt ?k activity (agents st) =
      Inr ((agents st)(?k \<mapsto> JObj (r(''lastActivity'' \<mapsto> JDate activity,
                                      ''messagesProcessed'' \<mapsto> JNaN))))"
    by blast
  have nonempty: "?k \<noteq> []"
    using assms(4) by auto
  have shown: "truthy (obj_get (agents st) ?k)"
    by (simp add: obj_get_def r)
  from assms(3) have data: "\<exists>v. get_prop (msg_data m) ''to_agent'' = Inr v"
    "\<exists>v. get_prop (msg_data m) ''message_type'' = Inr v"
    by (cases "msg_data m"; simp)+
  then obtain to_agent message_type where
    to: "get_prop (msg_data m) ''to_agent'' = Inr to_agent"
    and ty: "get_prop (msg_data m) ''message_type'' = Inr message_type"
    by blast
  have step: "\<exists>st'. AgentStatus_message rt (agents st) m st = Inr st' \<and>
       agents st' = (agents st)(?k \<mapsto>
          JObj (r(''lastActivity'' \<mapsto> JDate (clock rt (reads st + 2)),
                  ''messagesProcessed'' \<mapsto> JNaN)))"
    if "get_prop (msg_data m) ''content'' = Inr content" and "stringify rt content = Some json"
    for content json
    using that by (simp add: AgentStatus_message_def assms(2,3) nonempty shown upd to ty)
  from r upd step show ?thesis
    by blast
qed

lemma lower_SUPPLY: "toLowerCase ''SUPPLY'' = ''supply''"
  by (simp add: toLowerCase_def to_lower_char_def is_upper_def)

theorem agent_message_lowercased_key_counts_NaN_witness:
  "map_sum id (\<lambda>st. map_option (\<lambda>v. get_prop v ''messagesProcessed'') (agents st ''supply''))
     (AgentStatus_message
        \<lparr>ToString = \<lambda>v. Inl TypeError, stringify = \<lambda>v. Some ''5'', clock = \<lambda>n. 1000\<rparr>
        (agents (agent_view_initial
           \<lparr>ToString = \<lambda>v. Inl TypeError, stringify = \<lambda>v. Some ''5'', clock = \<lambda>n. 1000\<rparr>))
        \<lparr>msg_type = ''agent_message'',
         msg_data = JObj [''from_agent'' \<mapsto> JStr ''SUPPLY'', ''content'' \<mapsto> JNum 5],
         msg_timestamp = 0\<rparr>
        (agent_view_initial
           \<lparr>ToString = \<lambda>v. Inl TypeError, stringify = \<lambda>v. Some ''5'', clock = \<lambda>n. 1000\<rparr>)) =
   Inr (Some (Inr JNaN))"
  using agent_message_lowercased_key_counts_NaN
          [of "\<lparr>ToString = \<lambda>v. Inl TypeError, stringify = \<lambda>v. Some ''5'', clock = \<lambda>n. 1000\<rparr>"
              "[]"
              "agent_view_initial
                 \<lparr>ToString = \<lambda>v. Inl TypeError, stringify = \<lambda>v. Some ''5'', clock = \<lambda>n. 1000\<rparr>"
              "\<lparr>msg_type = ''agent_message'',
                msg_data = JObj [''from_agent'' \<mapsto> JStr ''SUPPLY'', ''content'' \<mapsto> JNum 5],
                msg_timestamp = 0\<rparr>"
              "''SUPPLY''"]
  by (auto simp add: lower_SUPPLY obj_get_def)

end
